theory Spec2Isabelle
  imports Main
begin

section \<open>Site-generator configuration objects\<close>

text \<open>
  The repository holds two configuration modules. Each one default-exports the object
  literal it hands to the framework's \<^verbatim>\<open>defineConfig\<close>, a typing helper that
  returns its argument. Every key of the framework's configuration type is optional, so
  a key that an object literal does not write is \<open>None\<close> here.

  The hosting adapter is the value of a call to the factory imported from
  \<^verbatim>\<open>@astrojs/vercel\<close>; the factory belongs to an external package, and the model
  keeps the call with the options object it is given.
\<close>

record web_analytics_config =
  enabled :: bool

record vercel_adapter_options =
  webAnalytics :: "web_analytics_config option"

datatype astro_integration = vercel vercel_adapter_options

record astro_user_config =
  site :: "string option"
  base :: "string option"
  "output" :: "string option"
  adapter :: "astro_integration option"
  prefetch :: "bool option"
  compressHTML :: "bool option"

text \<open>
  \<^verbatim>\<open>src/astro.config.ts\<close>:
  \<^verbatim>\<open>
  export default defineConfig({
    site: 'https://imme-navy.vercel.app/',
    output: "static",
    adapter: vercel({
      webAnalytics: { enabled: true }
    }),
    prefetch: true,
    compressHTML: true,
  });
  \<close>
\<close>

definition astro_config :: astro_user_config where
  "astro_config =
     \<lparr> site = Some ''https://imme-navy.vercel.app/'',
       base = None,
       output = Some ''static'',
       adapter = Some (vercel \<lparr> webAnalytics = Some \<lparr> enabled = True \<rparr> \<rparr>),
       prefetch = Some True,
       compressHTML = Some True \<rparr>"

text \<open>
  \<^verbatim>\<open>src/unnamed/part_000\<close>:
  \<^verbatim>\<open>
  export default defineConfig({
    site: 'https://giovanicavila.github.io',
    base: '/DOM-enlightenment',
    output: "static",
    prefetch: true,
    compressHTML: true,
  });
  \<close>
\<close>

definition astro_config_part_000 :: astro_user_config where
  "astro_config_part_000 =
     \<lparr> site = Some ''https://giovanicavila.github.io'',
       base = Some ''/DOM-enlightenment'',
       output = Some ''static'',
       adapter = None,
       prefetch = Some True,
       compressHTML = Some True \<rparr>"

subsection \<open>The two kinds of export\<close>

definition static_output :: "astro_user_config \<Rightarrow> bool" where
  "static_output c = (output c = Some ''static'')"

definition has_base_path :: "astro_user_config \<Rightarrow> bool" where
  "has_base_path c = (case base c of None \<Rightarrow> False | Some p \<Rightarrow> True)"

definition has_adapter :: "astro_user_config \<Rightarrow> bool" where
  "has_adapter c = (case adapter c of None \<Rightarrow> False | Some a \<Rightarrow> True)"

definition web_analytics_enabled :: "astro_user_config \<Rightarrow> bool" where
  "web_analytics_enabled c =
     (case adapter c of
        None \<Rightarrow> False
      | Some (vercel opts) \<Rightarrow>
          (case webAnalytics opts of None \<Rightarrow> False | Some w \<Rightarrow> enabled w))"

text \<open>
  A path-prefixed static export: static output under a base path prefix, with no
  hosting adapter.
\<close>

definition path_prefixed_static_export :: "astro_user_config \<Rightarrow> bool" where
  "path_prefixed_static_export c =
     (static_output c \<and> has_base_path c \<and> \<not> has_adapter c)"

text \<open>
  An adapter-based static export with analytics: static output through a hosting
  adapter whose web analytics are enabled, with no base path prefix.
\<close>

definition adapter_based_static_export :: "astro_user_config \<Rightarrow> bool" where
  "adapter_based_static_export c =
     (static_output c \<and> has_adapter c \<and> web_analytics_enabled c \<and> \<not> has_base_path c)"

section \<open>Content files\<close>

text \<open>
  A content file is a frontmatter block (the key-value lines between the two
  \<^verbatim>\<open>---\<close> markers) followed by a markdown body. The model keeps the block as it
  is written: the keys in order, each with its value, a double-quoted scalar, a plain
  (unquoted) scalar, a flow sequence \<^verbatim>\<open>[ ... ]\<close> or a nested mapping. It leaves
  the body out: the body is free prose.
\<close>

datatype yaml =
    Quoted string
  | Plain string
  | Seq "yaml list"
  | Mapping "(string \<times> yaml) list"

type_synonym frontmatter = "(string \<times> yaml) list"

datatype collection = experience | posts | projects

record content_file =
  collection :: collection
  frontmatter :: frontmatter

text \<open>
  The experience entry (the second document of \<^verbatim>\<open>src/README.md\<close>):
  \<^verbatim>\<open>
  title: "Front-end developer at Dataside"
  logo: "/images/companies/techcorp.svg"
  description: "I specialize in ... data handling and caching."
  startDate: "2025-06"
  current: true
  \<close>
\<close>

definition experience_dataside :: content_file where
  "experience_dataside =
     \<lparr> collection = experience,
       frontmatter =
         [ (''title'', Quoted ''Front-end developer at Dataside''),
           (''logo'', Quoted ''/images/companies/techcorp.svg''),
           (''description'', Quoted ''I specialize in developing user interfaces and managing state with React and TypeScript, focusing on building reusable components using Shadcn and TailwindCSS. I am also responsible for global state management via useContext and integrating REST APIs, leveraging React Query to optimize asynchronous data handling and caching.''),
           (''startDate'', Quoted ''2025-06''),
           (''current'', Plain ''true'') ] \<rparr>"

text \<open>
  The project entry \<^verbatim>\<open>src/src/content/projects/shop.md\<close>:
  \<^verbatim>\<open>
  title: "Shop management"
  description: "A pizza shop management application ... web development tools."
  url: "https://github.com/giovanicavila/shop"
  featured: true
  techs: ["React", "TypeScript", "TanStack Query", "TailwindCSS", "TanStack Router",
          "Shadcn", "animation-ui"]
  \<close>
\<close>

definition project_shop :: content_file where
  "project_shop =
     \<lparr> collection = projects,
       frontmatter =
         [ (''title'', Quoted ''Shop management''),
           (''description'', Quoted ''A pizza shop management application built as a study project to explore modern technologies. Features include pizza order management, a dynamic animated UI, and advanced routing with TanStack Router. Designed to deliver a seamless and engaging user experience while leveraging the latest in web development tools.''),
           (''url'', Quoted ''https://github.com/giovanicavila/shop''),
           (''featured'', Plain ''true''),
           (''techs'', Seq [Quoted ''React'', Quoted ''TypeScript'', Quoted ''TanStack Query'',
              Quoted ''TailwindCSS'', Quoted ''TanStack Router'', Quoted ''Shadcn'',
              Quoted ''animation-ui'']) ] \<rparr>"

text \<open>
  The blog post \<^verbatim>\<open>src/unnamed/part_001\<close>; the last character of its description
  is an apostrophe:
  \<^verbatim>\<open>
  title: "Signals in Frontend: The Reactive Revolution You Didn't Know You Needed"
  description: "Why Vue and Angular embraced signals while React said 'nah, we're good'"
  publishedAt: 2026-01-09
  tags: ["signals", "reactivity", "vue", "angular", "react", "state-management"]
  \<close>
\<close>

definition post_signals :: content_file where
  "post_signals =
     \<lparr> collection = posts,
       frontmatter =
         [ (''title'', Quoted ''Signals in Frontend: The Reactive Revolution You Didn't Know You Needed''),
           (''description'', Quoted (''Why Vue and Angular embraced signals while React said 'nah, we're good'' @ [CHR 0x27])),
           (''publishedAt'', Plain ''2026-01-09''),
           (''tags'', Seq [Quoted ''signals'', Quoted ''reactivity'', Quoted ''vue'',
              Quoted ''angular'', Quoted ''react'', Quoted ''state-management'']) ] \<rparr>"

text \<open>The content files of the repository, and those of one collection.\<close>

definition content_files :: "content_file list" where
  "content_files = [experience_dataside, project_shop, post_signals]"

definition entries_of :: "collection \<Rightarrow> content_file list" where
  "entries_of c = filter (\<lambda>f. collection f = c) content_files"


text \<open>
  A flat record: every value of the block is a scalar or a sequence of scalars, none is
  a nested mapping.
\<close>

fun scalar :: "yaml \<Rightarrow> bool" where
  "scalar (Quoted s) = True"
| "scalar (Plain s) = True"
| "scalar (Seq vs) = False"
| "scalar (Mapping kvs) = False"

fun flat_value :: "yaml \<Rightarrow> bool" where
  "flat_value (Quoted s) = True"
| "flat_value (Plain s) = True"
| "flat_value (Seq vs) = list_all scalar vs"
| "flat_value (Mapping kvs) = False"

definition flat :: "frontmatter \<Rightarrow> bool" where
  "flat fm = list_all (\<lambda>kv. flat_value (snd kv)) fm"

section \<open>Reading scalars\<close>

text \<open>
  Modelled from the spec: the content framework that parses frontmatter into typed
  records is an external collaborator and is not part of the sources. A date is a
  calendar date written in ISO form, \<^verbatim>\<open>YYYY-MM-DD\<close>, or reduced to
  \<^verbatim>\<open>YYYY-MM\<close>, which stands for the first day of that month. A text that names no
  day of the calendar (month 13, 30 February) is no date.
\<close>

datatype date = Date (year: nat) (month: nat) (day: nat)

definition digit :: "char \<Rightarrow> nat option" where
  "digit c =
     map_of [(CHR ''0'', 0), (CHR ''1'', 1), (CHR ''2'', 2), (CHR ''3'', 3), (CHR ''4'', 4),
             (CHR ''5'', 5), (CHR ''6'', 6), (CHR ''7'', 7), (CHR ''8'', 8), (CHR ''9'', 9)] c"

fun digits :: "nat \<Rightarrow> string \<Rightarrow> nat option" where
  "digits n [] = Some n"
| "digits n (c # cs) =
     (case digit c of None \<Rightarrow> None | Some d \<Rightarrow> digits (10 * n + d) cs)"

definition number :: "nat \<Rightarrow> string \<Rightarrow> nat option" where
  "number width s = (if length s = width then digits 0 s else None)"

fun split_on :: "char \<Rightarrow> string \<Rightarrow> string list" where
  "split_on sep [] = [[]]"
| "split_on sep (c # cs) =
     (if c = sep then [] # split_on sep cs
      else (case split_on sep cs of
              [] \<Rightarrow> [[c]]
            | w # ws \<Rightarrow> (c # w) # ws))"

definition leap_year :: "nat \<Rightarrow> bool" where
  "leap_year y =
     (if y mod 400 = 0 then True else if y mod 100 = 0 then False else y mod 4 = 0)"

definition days_in_month :: "nat \<Rightarrow> nat \<Rightarrow> nat" where
  "days_in_month y m =
     (if m = 2 then (if leap_year y then 29 else 28)
      else if m = 4 \<or> m = 6 \<or> m = 9 \<or> m = 11 then 30
      else 31)"

fun valid_date :: "date \<Rightarrow> bool" where
  "valid_date (Date y m d) = (1 \<le> m \<and> m \<le> 12 \<and> 1 \<le> d \<and> d \<le> days_in_month y m)"

definition checked :: "date \<Rightarrow> date option" where
  "checked d = (if valid_date d then Some d else None)"

definition parse_date :: "string \<Rightarrow> date option" where
  "parse_date s =
     (case split_on CHR ''-'' s of
        [y, m, d] \<Rightarrow>
          (case (number 4 y, number 2 m, number 2 d) of
             (Some yy, Some mm, Some dd) \<Rightarrow> checked (Date yy mm dd)
           | _ \<Rightarrow> None)
      | [y, m] \<Rightarrow>
          (case (number 4 y, number 2 m) of
             (Some yy, Some mm) \<Rightarrow> checked (Date yy mm 1)
           | _ \<Rightarrow> None)
      | _ \<Rightarrow> None)"

text \<open>
  Modelled from the spec: how the framework reads a plain scalar. The words
  \<^verbatim>\<open>true\<close> and \<^verbatim>\<open>false\<close> are booleans, a complete date is a timestamp,
  and any other plain scalar is a string (numbers and null, which no content file of
  the repository uses, are not told apart from strings).
\<close>

definition parse_boolean :: "string \<Rightarrow> bool option" where
  "parse_boolean s =
     (if s = ''true'' \<or> s = ''True'' \<or> s = ''TRUE'' then Some True
      else if s = ''false'' \<or> s = ''False'' \<or> s = ''FALSE'' then Some False
      else None)"


definition timestamp :: "string \<Rightarrow> bool" where
  "timestamp s =
     (case split_on CHR ''-'' s of
        [y, m, d] \<Rightarrow> (case parse_date s of None \<Rightarrow> False | Some x \<Rightarrow> True)
      | _ \<Rightarrow> False)"

section \<open>Schemas\<close>

text \<open>
  Modelled from the spec: the collection schemas (the content configuration module of
  the repository) are not part of the sources. A schema lists its fields, each with
  the type of its value and whether it is required.
\<close>

datatype field_type = TString | TBoolean | TDate | TStrings | TStringSet

datatype field_value =
    VString string
  | VBoolean bool
  | VDate date
  | VStrings "string list"
  | VStringSet "string set"

datatype field_spec = Field (field_name: string) (field_type: field_type) (required: bool)

text \<open>
  Modelled from the spec: the value a field of each type accepts. A string field takes
  a string scalar, a boolean field a plain boolean word, a date field a scalar (plain
  or quoted) whose text is a date, a field of labels a sequence of string scalars.
\<close>

fun scalar_text :: "yaml \<Rightarrow> string option" where
  "scalar_text (Quoted s) = Some s"
| "scalar_text (Plain s) = Some s"
| "scalar_text (Seq vs) = None"
| "scalar_text (Mapping kvs) = None"

fun string_value :: "yaml \<Rightarrow> string option" where
  "string_value (Quoted s) = Some s"
| "string_value (Plain s) =
     (case parse_boolean s of
        Some b \<Rightarrow> None
      | None \<Rightarrow> if timestamp s then None else Some s)"
| "string_value (Seq vs) = None"
| "string_value (Mapping kvs) = None"

fun boolean_value :: "yaml \<Rightarrow> bool option" where
  "boolean_value (Plain s) = parse_boolean s"
| "boolean_value (Quoted s) = None"
| "boolean_value (Seq vs) = None"
| "boolean_value (Mapping kvs) = None"

definition date_value :: "yaml \<Rightarrow> date option" where
  "date_value v = (case scalar_text v of None \<Rightarrow> None | Some s \<Rightarrow> parse_date s)"

fun strings_value :: "yaml \<Rightarrow> string list option" where
  "strings_value (Seq vs) = those (map string_value vs)"
| "strings_value (Quoted s) = None"
| "strings_value (Plain s) = None"
| "strings_value (Mapping kvs) = None"

fun parse_field :: "field_type \<Rightarrow> yaml \<Rightarrow> field_value option" where
  "parse_field TString v = map_option VString (string_value v)"
| "parse_field TBoolean v = map_option VBoolean (boolean_value v)"
| "parse_field TDate v = map_option VDate (date_value v)"
| "parse_field TStrings v = map_option VStrings (strings_value v)"
| "parse_field TStringSet v = map_option (\<lambda>xs. VStringSet (set xs)) (strings_value v)"

text \<open>
  Modelled from the spec: the three content shapes.
  \<^item> Experience entry: title (string), logo (asset path, a string), description (string),
    startDate (date), endDate (optional date), current (boolean flag).
  \<^item> Blog post: title, description, publishedAt (date), tags (set of string).
  \<^item> Project entry: title, description, url, featured (boolean), techs (ordered
    sequence of string labels).
  Every field is required but the one the spec marks optional.
\<close>

definition experience_schema :: "field_spec list" where
  "experience_schema =
     [ Field ''title'' TString True,
       Field ''logo'' TString True,
       Field ''description'' TString True,
       Field ''startDate'' TDate True,
       Field ''endDate'' TDate False,
       Field ''current'' TBoolean True ]"

definition post_schema :: "field_spec list" where
  "post_schema =
     [ Field ''title'' TString True,
       Field ''description'' TString True,
       Field ''publishedAt'' TDate True,
       Field ''tags'' TStringSet True ]"

definition project_schema :: "field_spec list" where
  "project_schema =
     [ Field ''title'' TString True,
       Field ''description'' TString True,
       Field ''url'' TString True,
       Field ''featured'' TBoolean True,
       Field ''techs'' TStrings True ]"

fun schema_of :: "collection \<Rightarrow> field_spec list" where
  "schema_of experience = experience_schema"
| "schema_of posts = post_schema"
| "schema_of projects = project_schema"

text \<open>
  Modelled from the spec: schema validation, which the repository delegates to the
  content framework. The fields are checked in the order of the schema. A required
  field that the block does not have is an error, and so is a value that its field
  does not accept; an optional field that is absent is left out of the typed record.
  Keys that the schema does not name are ignored.
\<close>

datatype build_error = MissingField string | InvalidField string

type_synonym entry = "(string \<times> field_value) list"

fun validate :: "field_spec list \<Rightarrow> frontmatter \<Rightarrow> build_error + entry" where
  "validate [] fm = Inr []"
| "validate (fld # flds) fm =
     (case map_of fm (field_name fld) of
        None \<Rightarrow>
          if required fld then Inl (MissingField (field_name fld)) else validate flds fm
      | Some v \<Rightarrow>
          (case parse_field (field_type fld) v of
             None \<Rightarrow> Inl (InvalidField (field_name fld))
           | Some x \<Rightarrow>
               (case validate flds fm of
                  Inl e \<Rightarrow> Inl e
                | Inr d \<Rightarrow> Inr ((field_name fld, x) # d))))"

text \<open>A block satisfies a schema when it is flat and validates against it.\<close>

definition satisfies :: "field_spec list \<Rightarrow> frontmatter \<Rightarrow> bool" where
  "satisfies schema fm =
     (flat fm \<and> (case validate schema fm of Inl e \<Rightarrow> False | Inr d \<Rightarrow> True))"

text \<open>The boolean a block gives to a key, if it gives one.\<close>

definition boolean_field :: "frontmatter \<Rightarrow> string \<Rightarrow> bool option" where
  "boolean_field fm k = (case map_of fm k of None \<Rightarrow> None | Some v \<Rightarrow> boolean_value v)"

section \<open>The build\<close>

text \<open>
  Modelled from the spec: the build, whose templates and pages are not part of the
  sources. It validates every content file against the schema of its collection and
  fails with the first error; otherwise it renders one page for each file, in order.
  A page shows the "ongoing" indicator when its entry is current and has no end date,
  and the publication date of its entry when it has one. The featured-projects listing
  holds the pages of the project entries that are featured.
\<close>

fun load :: "content_file list \<Rightarrow> build_error + (content_file \<times> entry) list" where
  "load [] = Inr []"
| "load (f # fs) =
     (case validate (schema_of (collection f)) (frontmatter f) of
        Inl e \<Rightarrow> Inl e
      | Inr d \<Rightarrow>
          (case load fs of
             Inl e \<Rightarrow> Inl e
           | Inr es \<Rightarrow> Inr ((f, d) # es)))"

record page =
  source :: content_file
  data :: entry
  ongoing_indicator :: bool
  publication_date :: "date option"

fun render_page :: "content_file \<times> entry \<Rightarrow> page" where
  "render_page (f, d) =
     \<lparr> source = f,
       data = d,
       ongoing_indicator =
         (map_of d ''current'' = Some (VBoolean True) \<and> map_of d ''endDate'' = None),
       publication_date =
         (case map_of d ''publishedAt'' of Some (VDate x) \<Rightarrow> Some x | _ \<Rightarrow> None) \<rparr>"

fun featured :: "content_file \<times> entry \<Rightarrow> bool" where
  "featured (f, d) =
     (collection f = projects \<and> map_of d ''featured'' = Some (VBoolean True))"

record site =
  pages :: "page list"
  featured_projects :: "page list"

definition build :: "content_file list \<Rightarrow> build_error + site" where
  "build files =
     (case load files of
        Inl e \<Rightarrow> Inl e
      | Inr es \<Rightarrow>
          Inr \<lparr> pages = map render_page es,
                featured_projects = map render_page (filter featured es) \<rparr>)"

section \<open>Properties of the configuration objects\<close>

text \<open>
  C1. Of the two configuration objects, exactly one selects a path-prefixed static
  export (a base path prefix and no hosting adapter): the one of
  \<^verbatim>\<open>src/unnamed/part_000\<close>. The other, \<^verbatim>\<open>src/astro.config.ts\<close>, selects an
  adapter-based static export with web analytics enabled and no base path prefix.
\<close>

theorem config_variants:
  "path_prefixed_static_export astro_config_part_000
   \<and> \<not> path_prefixed_static_export astro_config
   \<and> adapter_based_static_export astro_config
   \<and> \<not> adapter_based_static_export astro_config_part_000
   \<and> base astro_config_part_000 = Some ''/DOM-enlightenment''
   \<and> adapter astro_config_part_000 = None
   \<and> adapter astro_config = Some (vercel \<lparr> webAnalytics = Some \<lparr> enabled = True \<rparr> \<rparr>)
   \<and> base astro_config = None"
  by (simp add: path_prefixed_static_export_def adapter_based_static_export_def
      static_output_def has_base_path_def has_adapter_def web_analytics_enabled_def
      astro_config_def astro_config_part_000_def)

text \<open>
  C3. Each of the two configuration objects defines a site base URL, sets the output
  mode to the string "static", and sets the prefetch flag and the HTML compression
  flag (both to true).
\<close>

theorem config_common_settings:
  "site astro_config = Some ''https://imme-navy.vercel.app/''
   \<and> output astro_config = Some ''static''
   \<and> prefetch astro_config = Some True
   \<and> compressHTML astro_config = Some True
   \<and> site astro_config_part_000 = Some ''https://giovanicavila.github.io''
   \<and> output astro_config_part_000 = Some ''static''
   \<and> prefetch astro_config_part_000 = Some True
   \<and> compressHTML astro_config_part_000 = Some True"
  by (simp add: astro_config_def astro_config_part_000_def)

text \<open>
  C9. The two configuration objects agree on the output mode, the prefetch flag and
  the HTML compression flag. They differ in the site URL, the base path prefix and the
  hosting adapter (with its analytics setting), and in nothing else: writing the second
  object's site, base path and adapter into the first gives the second.
\<close>

theorem configs_differ_only_in_target:
  "output astro_config = output astro_config_part_000
   \<and> prefetch astro_config = prefetch astro_config_part_000
   \<and> compressHTML astro_config = compressHTML astro_config_part_000
   \<and> site astro_config \<noteq> site astro_config_part_000
   \<and> base astro_config \<noteq> base astro_config_part_000
   \<and> adapter astro_config \<noteq> adapter astro_config_part_000
   \<and> astro_config \<lparr> site := site astro_config_part_000,
                     base := base astro_config_part_000,
                     adapter := adapter astro_config_part_000 \<rparr>
       = astro_config_part_000"
  by (simp add: astro_config_def astro_config_part_000_def)

section \<open>Validation and the build\<close>

lemma validate_missing_required:
  "fld \<in> set schema \<Longrightarrow> required fld \<Longrightarrow> map_of fm (field_name fld) = None
   \<Longrightarrow> \<exists>e. validate schema fm = Inl e"
  by (induction schema) (auto split: option.splits sum.splits)


lemma validate_present:
  "validate schema fm = Inr d \<Longrightarrow> distinct (map field_name schema) \<Longrightarrow> fld \<in> set schema
   \<Longrightarrow> map_of fm (field_name fld) = Some v
   \<Longrightarrow> \<exists>x. parse_field (field_type fld) v = Some x \<and> map_of d (field_name fld) = Some x"
proof (induction schema arbitrary: d)
  case Nil
  then show ?case by simp
next
  case (Cons a schema)
  show ?case
  proof (cases "fld = a")
    case True
    with Cons.prems show ?thesis
      by (auto split: option.splits sum.splits)
  next
    case False
    with Cons.prems have mem: "fld \<in> set schema" and ne: "field_name a \<noteq> field_name fld"
      by auto
    from Cons.prems have dist: "distinct (map field_name schema)" by simp
    from Cons.prems(1) obtain d' where
      d': "validate schema fm = Inr d'" and
      dd: "d = d' \<or> (\<exists>x. d = (field_name a, x) # d')"
      by (auto split: option.splits sum.splits if_splits)
    from Cons.IH [OF d' dist mem Cons.prems(4)] obtain x where
      x: "parse_field (field_type fld) v = Some x" "map_of d' (field_name fld) = Some x"
      by blast
    from dd ne x show ?thesis by auto
  qed
qed

lemma load_fails:
  "f \<in> set files \<Longrightarrow> validate (schema_of (collection f)) (frontmatter f) = Inl e
   \<Longrightarrow> \<exists>e'. load files = Inl e'"
  by (induction files) (auto split: sum.splits)

lemma load_sources: "load files = Inr es \<Longrightarrow> map fst es = files"
  by (induction files arbitrary: es) (auto split: sum.splits)

lemma load_member:
  "load files = Inr es \<Longrightarrow> f \<in> set files
   \<Longrightarrow> \<exists>d. (f, d) \<in> set es \<and> validate (schema_of (collection f)) (frontmatter f) = Inr d"
  by (induction files arbitrary: es) (auto split: sum.splits)

lemma distinct_schema: "distinct (map field_name (schema_of c))"
  by (cases c) (simp_all add: experience_schema_def post_schema_def project_schema_def)

lemma parse_date_valid: "parse_date s = Some d \<Longrightarrow> valid_date d"
  by (auto simp: parse_date_def checked_def split: list.splits option.splits if_splits)

lemma date_value_valid: "date_value v = Some d \<Longrightarrow> valid_date d"
  by (auto simp: date_value_def parse_date_valid split: option.splits)

lemma source_render_page: "source (render_page x) = fst x"
  by (cases x) simp

lemma build_pages: "build files = Inr out \<Longrightarrow> map source (pages out) = files"
  by (auto simp: build_def comp_def source_render_page load_sources split: sum.splits)

lemma validate_boolean_field:
  assumes "validate schema fm = Inr d"
    and "distinct (map field_name schema)"
    and "Field k TBoolean r \<in> set schema"
    and "boolean_field fm k = Some b"
  shows "map_of d k = Some (VBoolean b)"
proof -
  from assms(4) obtain v where v: "map_of fm k = Some v" "boolean_value v = Some b"
    by (auto simp: boolean_field_def split: option.splits)
  from validate_present [OF assms(1) assms(2) assms(3)] v show ?thesis
    by auto
qed

lemma build_load:
  "build files = Inr out \<Longrightarrow>
   \<exists>es. load files = Inr es
     \<and> out = \<lparr> pages = map render_page es,
               featured_projects = map render_page (filter featured es) \<rparr>"
  by (auto simp: build_def split: sum.splits)

subsection \<open>The content files of the repository\<close>

lemma validate_experience_dataside:
  "validate experience_schema (frontmatter experience_dataside) =
     Inr [ (''title'', VString ''Front-end developer at Dataside''),
           (''logo'', VString ''/images/companies/techcorp.svg''),
           (''description'', VString ''I specialize in developing user interfaces and managing state with React and TypeScript, focusing on building reusable components using Shadcn and TailwindCSS. I am also responsible for global state management via useContext and integrating REST APIs, leveraging React Query to optimize asynchronous data handling and caching.''),
           (''startDate'', VDate (Date 2025 6 1)),
           (''current'', VBoolean True) ]"
  by (simp add: experience_schema_def experience_dataside_def date_value_def parse_date_def
      number_def digit_def checked_def days_in_month_def parse_boolean_def)

lemma validate_project_shop:
  "validate project_schema (frontmatter project_shop) =
     Inr [ (''title'', VString ''Shop management''),
           (''description'', VString ''A pizza shop management application built as a study project to explore modern technologies. Features include pizza order management, a dynamic animated UI, and advanced routing with TanStack Router. Designed to deliver a seamless and engaging user experience while leveraging the latest in web development tools.''),
           (''url'', VString ''https://github.com/giovanicavila/shop''),
           (''featured'', VBoolean True),
           (''techs'', VStrings [''React'', ''TypeScript'', ''TanStack Query'', ''TailwindCSS'',
              ''TanStack Router'', ''Shadcn'', ''animation-ui'']) ]"
  by (simp add: project_schema_def project_shop_def parse_boolean_def)

lemma validate_post_signals:
  "validate post_schema (frontmatter post_signals) =
     Inr [ (''title'', VString ''Signals in Frontend: The Reactive Revolution You Didn't Know You Needed''),
           (''description'', VString (''Why Vue and Angular embraced signals while React said 'nah, we're good'' @ [CHR 0x27])),
           (''publishedAt'', VDate (Date 2026 1 9)),
           (''tags'', VStringSet {''signals'', ''reactivity'', ''vue'', ''angular'', ''react'',
              ''state-management''}) ]"
  by (simp add: post_schema_def post_signals_def date_value_def parse_date_def
      number_def digit_def checked_def days_in_month_def)

lemma collections_of_content_files:
  "collection experience_dataside = experience"
  "collection project_shop = projects"
  "collection post_signals = posts"
  by (simp_all add: experience_dataside_def project_shop_def post_signals_def)

lemma build_content_files: "\<exists>out. build content_files = Inr out"
  by (simp add: build_def content_files_def collections_of_content_files
      validate_experience_dataside validate_project_shop validate_post_signals
      del: render_page.simps featured.simps)

section \<open>Properties of the content\<close>

text \<open>
  C2. For every content file that misses a required frontmatter field of its schema,
  the build fails at generation time: it returns an error and no site, so that no
  output exists from which the entry could be missing. (A build that succeeds has one
  page for each content file, by \<open>build_pages\<close>.)
\<close>

theorem build_fails_on_missing_required_field:
  assumes "f \<in> set files"
    and "fld \<in> set (schema_of (collection f))"
    and "required fld"
    and "map_of (frontmatter f) (field_name fld) = None"
  shows "\<exists>e. build files = Inl e"
proof -
  from assms(2-4) obtain e where "validate (schema_of (collection f)) (frontmatter f) = Inl e"
    using validate_missing_required by blast
  with assms(1) obtain e' where "load files = Inl e'"
    using load_fails by blast
  then show ?thesis by (simp add: build_def)
qed

theorem build_fails_on_missing_required_field_witness:
  "\<lparr> collection = projects,
      frontmatter = [ (''title'', Quoted ''Shop management''),
                      (''description'', Quoted ''A pizza shop''),
                      (''featured'', Plain ''true''),
                      (''techs'', Seq [Quoted ''React'']) ] \<rparr>
     \<in> set [ experience_dataside,
              \<lparr> collection = projects,
                frontmatter = [ (''title'', Quoted ''Shop management''),
                                (''description'', Quoted ''A pizza shop''),
                                (''featured'', Plain ''true''),
                                (''techs'', Seq [Quoted ''React'']) ] \<rparr> ]
   \<and> Field ''url'' TString True \<in> set (schema_of projects)
   \<and> required (Field ''url'' TString True)
   \<and> map_of [ (''title'', Quoted ''Shop management''),
               (''description'', Quoted ''A pizza shop''),
               (''featured'', Plain ''true''),
               (''techs'', Seq [Quoted ''React'']) ] ''url'' = None
   \<and> (\<exists>e. build [ experience_dataside,
                    \<lparr> collection = projects,
                      frontmatter = [ (''title'', Quoted ''Shop management''),
                                      (''description'', Quoted ''A pizza shop''),
                                      (''featured'', Plain ''true''),
                                      (''techs'', Seq [Quoted ''React'']) ] \<rparr> ] = Inl e)"
  using build_fails_on_missing_required_field
    [of "\<lparr> collection = projects,
           frontmatter = [ (''title'', Quoted ''Shop management''),
                           (''description'', Quoted ''A pizza shop''),
                           (''featured'', Plain ''true''),
                           (''techs'', Seq [Quoted ''React'']) ] \<rparr>"
        "[ experience_dataside,
           \<lparr> collection = projects,
             frontmatter = [ (''title'', Quoted ''Shop management''),
                             (''description'', Quoted ''A pizza shop''),
                             (''featured'', Plain ''true''),
                             (''techs'', Seq [Quoted ''React'']) ] \<rparr> ]"
        "Field ''url'' TString True"]
  by (simp add: project_schema_def)

text \<open>
  C4. Every authored experience entry is a flat record that satisfies the experience
  schema. There is one, and it has a title, a logo (an asset path) and a description,
  all strings, a startDate that is a date (the year and month 2025-06, read as the
  first day of the month), a current flag that is a boolean, and no endDate, a field
  the schema leaves optional.
\<close>

theorem experience_entries_satisfy_schema:
  "entries_of experience = [experience_dataside]
   \<and> list_all (\<lambda>f. satisfies experience_schema (frontmatter f)) (entries_of experience)
   \<and> validate experience_schema (frontmatter experience_dataside) =
       Inr [ (''title'', VString ''Front-end developer at Dataside''),
             (''logo'', VString ''/images/companies/techcorp.svg''),
             (''description'', VString ''I specialize in developing user interfaces and managing state with React and TypeScript, focusing on building reusable components using Shadcn and TailwindCSS. I am also responsible for global state management via useContext and integrating REST APIs, leveraging React Query to optimize asynchronous data handling and caching.''),
             (''startDate'', VDate (Date 2025 6 1)),
             (''current'', VBoolean True) ]
   \<and> Field ''endDate'' TDate False \<in> set experience_schema
   \<and> map_of (frontmatter experience_dataside) ''endDate'' = None"
proof -
  have entries: "entries_of experience = [experience_dataside]"
    by (simp add: entries_of_def content_files_def collections_of_content_files)
  have "flat (frontmatter experience_dataside)"
    by (simp add: flat_def experience_dataside_def)
  then have "satisfies experience_schema (frontmatter experience_dataside)"
    by (simp add: satisfies_def validate_experience_dataside)
  moreover have "Field ''endDate'' TDate False \<in> set experience_schema"
    by (simp add: experience_schema_def)
  moreover have "map_of (frontmatter experience_dataside) ''endDate'' = None"
    by (simp add: experience_dataside_def)
  ultimately show ?thesis
    using entries validate_experience_dataside by simp
qed

text \<open>
  C5. Every authored project entry is a flat record that satisfies the project schema.
  There is one, and it has a title, a description and a url, all strings, a featured
  flag that is a boolean, and techs, a sequence of string labels in the order in which
  they are written.
\<close>

theorem project_entries_satisfy_schema:
  "entries_of projects = [project_shop]
   \<and> list_all (\<lambda>f. satisfies project_schema (frontmatter f)) (entries_of projects)
   \<and> validate project_schema (frontmatter project_shop) =
       Inr [ (''title'', VString ''Shop management''),
             (''description'', VString ''A pizza shop management application built as a study project to explore modern technologies. Features include pizza order management, a dynamic animated UI, and advanced routing with TanStack Router. Designed to deliver a seamless and engaging user experience while leveraging the latest in web development tools.''),
             (''url'', VString ''https://github.com/giovanicavila/shop''),
             (''featured'', VBoolean True),
             (''techs'', VStrings [''React'', ''TypeScript'', ''TanStack Query'', ''TailwindCSS'',
                ''TanStack Router'', ''Shadcn'', ''animation-ui'']) ]"
proof -
  have entries: "entries_of projects = [project_shop]"
    by (simp add: entries_of_def content_files_def collections_of_content_files)
  have "flat (frontmatter project_shop)"
    by (simp add: flat_def project_shop_def)
  then have "satisfies project_schema (frontmatter project_shop)"
    by (simp add: satisfies_def validate_project_shop)
  then show ?thesis
    using entries validate_project_shop by simp
qed

text \<open>
  C6. Every blog post of a site that builds carries a publishedAt value whose text
  parses as a date, that date is a day of the calendar, and the page of the post
  renders with that date as its publication date.
\<close>

theorem posts_render_with_publication_date:
  assumes "build files = Inr out"
    and "f \<in> set files"
    and "collection f = posts"
  shows "\<exists>v s d. map_of (frontmatter f) ''publishedAt'' = Some v
           \<and> scalar_text v = Some s \<and> parse_date s = Some d \<and> valid_date d
           \<and> (\<exists>p \<in> set (pages out). source p = f \<and> publication_date p = Some d)"
proof -
  from build_load [OF assms(1)] obtain es where es: "load files = Inr es"
    and out: "out = \<lparr> pages = map render_page es,
                      featured_projects = map render_page (filter featured es) \<rparr>"
    by blast
  from load_member [OF es assms(2)] assms(3) obtain e where
    e: "(f, e) \<in> set es" "validate post_schema (frontmatter f) = Inr e"
    by auto
  have fld: "Field ''publishedAt'' TDate True \<in> set post_schema"
    by (simp add: post_schema_def)
  have dist: "distinct (map field_name post_schema)"
    using distinct_schema [of posts] by simp
  obtain v where v: "map_of (frontmatter f) ''publishedAt'' = Some v"
    using validate_missing_required [OF fld, of "frontmatter f"] e(2)
    by (cases "map_of (frontmatter f) ''publishedAt''") auto
  from validate_present [OF e(2) dist fld] v
  obtain d where d: "date_value v = Some d" "map_of e ''publishedAt'' = Some (VDate d)"
    by auto
  from d(1) obtain s where s: "scalar_text v = Some s" "parse_date s = Some d"
    by (auto simp: date_value_def split: option.splits)
  from d(2) have "source (render_page (f, e)) = f \<and> publication_date (render_page (f, e)) = Some d"
    by simp
  moreover from e(1) out have "render_page (f, e) \<in> set (pages out)"
    by (simp del: render_page.simps)
  ultimately have "\<exists>p \<in> set (pages out). source p = f \<and> publication_date p = Some d"
    by blast
  with v s parse_date_valid [OF s(2)] show ?thesis by blast
qed

theorem posts_render_with_publication_date_witness:
  "\<exists>out. build content_files = Inr out
     \<and> post_signals \<in> set content_files
     \<and> collection post_signals = posts
     \<and> map_of (frontmatter post_signals) ''publishedAt'' = Some (Plain ''2026-01-09'')
     \<and> parse_date ''2026-01-09'' = Some (Date 2026 1 9)
     \<and> valid_date (Date 2026 1 9)
     \<and> (\<exists>p \<in> set (pages out).
           source p = post_signals \<and> publication_date p = Some (Date 2026 1 9))"
proof -
  obtain out where b: "build content_files = Inr out"
    using build_content_files by blast
  have m: "post_signals \<in> set content_files"
    by (simp add: content_files_def)
  have c: "collection post_signals = posts"
    by (simp add: post_signals_def)
  have v: "map_of (frontmatter post_signals) ''publishedAt'' = Some (Plain ''2026-01-09'')"
    by (simp add: post_signals_def)
  have d: "parse_date ''2026-01-09'' = Some (Date 2026 1 9)"
    by (simp add: parse_date_def number_def digit_def checked_def days_in_month_def)
  from posts_render_with_publication_date [OF b m c] v d
  have "valid_date (Date 2026 1 9)
    \<and> (\<exists>p \<in> set (pages out).
          source p = post_signals \<and> publication_date p = Some (Date 2026 1 9))"
    by auto
  with b m c v d show ?thesis by blast
qed




text \<open>
  C8. Every project entry whose frontmatter has featured: true appears in the
  featured-projects listing of the generated site.
\<close>

theorem featured_projects_listed:
  assumes "build files = Inr out"
    and "f \<in> set files"
    and "collection f = projects"
    and "boolean_field (frontmatter f) ''featured'' = Some True"
  shows "\<exists>p \<in> set (featured_projects out). source p = f"
proof -
  from build_load [OF assms(1)] obtain es where es: "load files = Inr es"
    and out: "out = \<lparr> pages = map render_page es,
                      featured_projects = map render_page (filter featured es) \<rparr>"
    by blast
  from load_member [OF es assms(2)] assms(3) obtain d where
    d: "(f, d) \<in> set es" "validate project_schema (frontmatter f) = Inr d"
    by auto
  have fld: "Field ''featured'' TBoolean True \<in> set project_schema"
    by (simp add: project_schema_def)
  have dist: "distinct (map field_name project_schema)"
    using distinct_schema [of projects] by simp
  have "map_of d ''featured'' = Some (VBoolean True)"
    using validate_boolean_field [OF d(2) dist fld assms(4)] .
  with assms(3) have "featured (f, d)" by simp
  with d(1) out have "render_page (f, d) \<in> set (featured_projects out)"
    by (simp del: render_page.simps featured.simps)
  moreover have "source (render_page (f, d)) = f" by simp
  ultimately show ?thesis by blast
qed

theorem featured_projects_listed_witness:
  "\<exists>out. build content_files = Inr out
     \<and> project_shop \<in> set content_files
     \<and> collection project_shop = projects
     \<and> boolean_field (frontmatter project_shop) ''featured'' = Some True
     \<and> (\<exists>p \<in> set (featured_projects out). source p = project_shop)"
proof -
  obtain out where b: "build content_files = Inr out"
    using build_content_files by blast
  have m: "project_shop \<in> set content_files"
    by (simp add: content_files_def)
  have c: "collection project_shop = projects"
    by (simp add: project_shop_def)
  have feat: "boolean_field (frontmatter project_shop) ''featured'' = Some True"
    by (simp add: boolean_field_def project_shop_def parse_boolean_def)
  from featured_projects_listed [OF b m c feat] b m c feat
  show ?thesis by blast
qed

text \<open>
  C10. In every authored experience entry the current flag and the endDate field are
  consistent: whenever current is true, the endDate field is absent.
\<close>

theorem current_entries_have_no_end_date:
  "\<forall>f \<in> set (entries_of experience).
     boolean_field (frontmatter f) ''current'' = Some True
     \<longrightarrow> map_of (frontmatter f) ''endDate'' = None"
  by (simp add: entries_of_def content_files_def collections_of_content_files
      experience_dataside_def)

theorem current_entries_have_no_end_date_witness:
  "experience_dataside \<in> set (entries_of experience)
   \<and> boolean_field (frontmatter experience_dataside) ''current'' = Some True
   \<and> map_of (frontmatter experience_dataside) ''endDate'' = None"
proof -
  have m: "experience_dataside \<in> set (entries_of experience)"
    by (simp add: entries_of_def content_files_def collections_of_content_files)
  have cur: "boolean_field (frontmatter experience_dataside) ''current'' = Some True"
    by (simp add: boolean_field_def experience_dataside_def parse_boolean_def)
  from current_entries_have_no_end_date m cur
  have "map_of (frontmatter experience_dataside) ''endDate'' = None"
    by blast
  with m cur show ?thesis by blast
qed

end
